theory Spec2Isabelle
  imports Complex_Main
begin

section \<open>BurgerBrows Web: the wallet and browser page\<close>

text \<open>
  A shallow embedding of \<^verbatim>\<open>src/app/page.tsx\<close>. The React component keeps its state in
  hooks and acts on the browser (local storage, timers, the clock) and on a chain behind
  a JSON-RPC provider. The model threads one record through every handler: the hook
  state, and beside it what the handler did to the outside (storage, the calls issued to
  the chain, the timers scheduled). What the outside answers (the clock, the chain, the
  functions of the \<^verbatim>\<open>ethers\<close> library, \<^verbatim>\<open>JSON\<close>, randomness) is read from
  an environment record.

  Strings are byte lists, text in UTF-8: the ASCII text of the source as it is, the emoji
  of the log messages as their bytes. The texts the page cuts with \<^verbatim>\<open>slice\<close> are
  addresses and transaction hashes, hexadecimal ASCII, where a byte is a UTF-16 code
  unit.
\<close>

subsection \<open>String helpers of JavaScript\<close>

definition startsWith :: "string \<Rightarrow> string \<Rightarrow> bool" where
  \<comment> \<open>\<^verbatim>\<open>s.startsWith(p)\<close>\<close>
  "startsWith s p = (take (length p) s = p)"

definition slice_to :: "nat \<Rightarrow> 'a list \<Rightarrow> 'a list" where
  \<comment> \<open>\<^verbatim>\<open>xs.slice(0, n)\<close>\<close>
  "slice_to n xs = take n xs"

definition slice_last :: "nat \<Rightarrow> 'a list \<Rightarrow> 'a list" where
  \<comment> \<open>\<^verbatim>\<open>xs.slice(-n)\<close> for \<open>n > 0\<close>: the last \<open>n\<close> elements, all of them when there are fewer\<close>
  "slice_last n xs = drop (length xs - n) xs"

definition truthy :: "string option \<Rightarrow> bool" where
  \<comment> \<open>a \<^verbatim>\<open>string | null | undefined\<close> in a condition: \<^verbatim>\<open>null\<close> and \<^verbatim>\<open>""\<close> are falsy\<close>
  "truthy v = (case v of None \<Rightarrow> False | Some x \<Rightarrow> x \<noteq> [])"

fun digit_char :: "nat \<Rightarrow> char" where
  "digit_char n = ''0123456789'' ! n"

fun show_nat :: "nat \<Rightarrow> string" where
  \<comment> \<open>a non-negative integer in a template literal\<close>
  "show_nat n = (if n < 10 then [digit_char n] else show_nat (n div 10) @ [digit_char (n mod 10)])"

declare show_nat.simps [simp del]

subsection \<open>Emoji of the log messages (UTF-8)\<close>

definition e_rocket :: string where "e_rocket = [CHR 0xF0, CHR 0x9F, CHR 0x9A, CHR 0x80]"
definition e_wave :: string where "e_wave = [CHR 0xF0, CHR 0x9F, CHR 0x91, CHR 0x8B]"
definition e_new :: string where "e_new = [CHR 0xF0, CHR 0x9F, CHR 0x86, CHR 0x95]"
definition e_bust :: string where "e_bust = [CHR 0xF0, CHR 0x9F, CHR 0x91, CHR 0xA4]"
definition e_cross :: string where "e_cross = [CHR 0xE2, CHR 0x9D, CHR 0x8C]"
definition e_check :: string where "e_check = [CHR 0xE2, CHR 0x9C, CHR 0x85]"
definition e_bank :: string where "e_bank = [CHR 0xF0, CHR 0x9F, CHR 0x8F, CHR 0xA6]"
definition e_moneybag :: string where "e_moneybag = [CHR 0xF0, CHR 0x9F, CHR 0x92, CHR 0xB0]"
definition e_tap :: string where "e_tap = [CHR 0xF0, CHR 0x9F, CHR 0x9A, CHR 0xB0]"
definition e_target :: string where "e_target = [CHR 0xF0, CHR 0x9F, CHR 0x8E, CHR 0xAF]"
definition e_outbox :: string where "e_outbox = [CHR 0xF0, CHR 0x9F, CHR 0x93, CHR 0xA4]"
definition e_link :: string where "e_link = [CHR 0xF0, CHR 0x9F, CHR 0x94, CHR 0x97]"
definition e_lock :: string where "e_lock = [CHR 0xF0, CHR 0x9F, CHR 0x94, CHR 0x90]"
definition e_memo :: string where "e_memo = [CHR 0xF0, CHR 0x9F, CHR 0x93, CHR 0x9D]"
definition e_gift :: string where "e_gift = [CHR 0xF0, CHR 0x9F, CHR 0x8E, CHR 0x81]"
definition e_trophy :: string where "e_trophy = [CHR 0xF0, CHR 0x9F, CHR 0x8F, CHR 0x86]"
definition e_party :: string where "e_party = [CHR 0xF0, CHR 0x9F, CHR 0x8E, CHR 0x89]"
definition e_money :: string where "e_money = [CHR 0xF0, CHR 0x9F, CHR 0x92, CHR 0xB8]"
definition e_cycle :: string where "e_cycle = [CHR 0xF0, CHR 0x9F, CHR 0x94, CHR 0x84]"
definition e_globe :: string where "e_globe = [CHR 0xF0, CHR 0x9F, CHR 0x8C, CHR 0x90]"
definition e_eyes :: string where "e_eyes = [CHR 0xF0, CHR 0x9F, CHR 0x91, CHR 0x80]"
definition e_unknown :: string where "e_unknown = [CHR 0xEF, CHR 0xBF, CHR 0xBD]"

subsection \<open>Data model\<close>

record UserWallet =
  address :: string
  privateKey :: string
  deviceHash :: string

text \<open>A state-changing contract call, with the private key that signs it.\<close>

datatype tx =
    Mint string string string int
  | Transfer string string string int
  | Approve string string string int
  | Deposit string string int

text \<open>
  \<open>Mint key c to n\<close> is \<^verbatim>\<open>mint(to, n)\<close> on the contract at \<open>c\<close> signed with \<open>key\<close>;
  \<open>Transfer key c to n\<close> and \<open>Approve key c spender n\<close> likewise; \<open>Deposit key c n\<close> is
  \<^verbatim>\<open>deposit(n)\<close> on the vault at \<open>c\<close>.
\<close>

text \<open>What goes over the RPC endpoint: a balance read, a transaction sent, a wait for its receipt.\<close>

datatype chain_call =
    BalanceOf string string
  | Send tx
  | Wait tx

text \<open>The two callbacks the page hands to \<^verbatim>\<open>setTimeout\<close>.\<close>

datatype callback = CheckBalance | BrowsingActivity

record app =
  wallet :: "UserWallet option"
  balance :: string
  currentUrl :: string
  provider :: "string option"
  loading :: bool
  logs :: "string list"
  transferAmount :: string
  transferAddress :: string
  browserError :: string
  showWalletPopup :: bool
  localStorage :: "string \<rightharpoonup> string"
  writes :: "(string \<times> string) list"
  calls :: "chain_call list"
  timers :: "(callback \<times> nat) list"
  ticks :: nat
  draws :: nat

text \<open>
  Beside the ten hooks: \<open>localStorage\<close> with the list \<open>writes\<close> of its \<^verbatim>\<open>setItem\<close>
  calls, the chain calls issued, the timers scheduled (callback and delay in ms), and two
  counters: how often the clock was read and how many random values were drawn.
\<close>

record env =
  clock :: "nat \<Rightarrow> string"
  randomUUID :: "nat \<Rightarrow> string"
  createRandom :: "nat \<Rightarrow> string \<times> string"
  keccak256 :: "string \<Rightarrow> string"
  userAgent :: string
  language :: string
  screenSize :: "nat \<times> nat"
  timezoneOffset :: string
  canvasDataURL :: string
  JSON_parse :: "string \<Rightarrow> string + UserWallet option"
  JSON_stringify :: "UserWallet \<Rightarrow> string"
  nullReadError :: string
  isAddress :: "string \<Rightarrow> bool"
  parseUnits6 :: "string \<Rightarrow> string + int"
  formatUnits6 :: "int \<Rightarrow> string"
  addressOfKey :: "string \<Rightarrow> string + string"
  balanceOf :: "string \<Rightarrow> string \<Rightarrow> string + int"
  sendTx :: "tx \<Rightarrow> string + string"
  waitTx :: "tx \<Rightarrow> string + nat"
  env_MOCK_USDC :: "string option"
  env_BROWSER_VAULT :: "string option"
  env_REWARD_POOL :: "string option"
  env_RPC_URL :: "string option"
  env_HACKATHON_PRIVATE_KEY :: "string option"

text \<open>
  The environment: \<open>clock i\<close> is \<^verbatim>\<open>new Date().toLocaleTimeString()\<close> at the \<open>i\<close>-th
  reading, \<open>randomUUID i\<close> and \<open>createRandom i\<close> (address and private key of
  \<^verbatim>\<open>ethers.Wallet.createRandom()\<close>) the \<open>i\<close>-th random draw. The functions of
  \<^verbatim>\<open>ethers\<close> and \<^verbatim>\<open>JSON\<close> are parameters; one that can throw returns \<open>Inl\<close> with
  the text of the error. \<open>JSON_parse\<close> is \<^verbatim>\<open>JSON.parse\<close> on the text stored for the
  wallet: it throws, or it returns \<^verbatim>\<open>null\<close> (\<open>None\<close>) or a wallet record;
  \<open>nullReadError\<close> is the text of the \<^verbatim>\<open>TypeError\<close> the engine throws when a
  property of \<^verbatim>\<open>null\<close> is read. \<open>parseUnits6\<close> and \<open>formatUnits6\<close> are \<^verbatim>\<open>parseUnits(_, 6)\<close>
  and \<^verbatim>\<open>formatUnits(_, 6)\<close>; \<open>addressOfKey k\<close> is the address of
  \<^verbatim>\<open>new ethers.Wallet(k, provider)\<close>. \<open>balanceOf c a\<close>, \<open>sendTx\<close> (the hash of the
  transaction) and \<open>waitTx\<close> (the block number of the receipt) are the chain's answers.
  The \<open>env_\<close> fields are the \<^verbatim>\<open>process.env\<close> variables of the second page.
\<close>

definition initial_app :: app where
  "initial_app = \<lparr> wallet = None, balance = ''0.000000'', currentUrl = ''/google-home.html'',
     provider = None, loading = False, logs = [e_rocket @ '' BurgerBrows Web initialized!''],
     transferAmount = [], transferAddress = [], browserError = [],
     showWalletPopup = False, localStorage = Map.empty, writes = [], calls = [],
     timers = [], ticks = 0, draws = 0 \<rparr>"

subsection \<open>Activity log\<close>

definition addLog :: "env \<Rightarrow> string \<Rightarrow> app \<Rightarrow> app" where
  "addLog env message s =
     (let timestamp = clock env (ticks s)
      in s\<lparr> ticks := Suc (ticks s),
             logs := slice_last 10 (logs s) @ [''['' @ timestamp @ ''] '' @ message] \<rparr>)"

definition setTimeout :: "callback \<Rightarrow> nat \<Rightarrow> app \<Rightarrow> app" where
  "setTimeout cb ms s = s\<lparr> timers := timers s @ [(cb, ms)] \<rparr>"

text \<open>Appending a list of messages, one \<open>addLog\<close> after the other.\<close>

fun addLogs :: "env \<Rightarrow> string list \<Rightarrow> app \<Rightarrow> app" where
  "addLogs env [] s = s"
| "addLogs env (m # ms) s = addLogs env ms (addLog env m s)"

text \<open>The entries \<open>addLogs\<close> writes when the clock has been read \<open>t\<close> times before.\<close>

fun stamped :: "env \<Rightarrow> nat \<Rightarrow> string list \<Rightarrow> string list" where
  "stamped env t [] = []"
| "stamped env t (m # ms) = (''['' @ clock env t @ ''] '' @ m) # stamped env (Suc t) ms"

subsection \<open>Browser viewport\<close>

definition safeSites :: "(string \<times> string) list" where
  "safeSites = [(''Google'', ''/google-home.html''), (''Test Page'', ''/test-page.html''),
     (''Example'', ''https://example.com''), (''Wikipedia'', ''https://en.wikipedia.org''),
     (''Ethereum.org'', ''https://ethereum.org''), (''DuckDuckGo'', ''https://duckduckgo.com'')]"

definition navigateToUrl :: "env \<Rightarrow> string \<Rightarrow> app \<Rightarrow> app" where
  "navigateToUrl env url0 s =
     (let url = (if \<not> startsWith url0 ''http://'' \<and> \<not> startsWith url0 ''https://''
                 then ''https://'' @ url0 else url0);
          s1 = s\<lparr> currentUrl := url \<rparr>;
          s2 = s1\<lparr> browserError := [] \<rparr>;
          s3 = addLog env (e_globe @ '' Navigating to: '' @ url) s2
      in setTimeout BrowsingActivity 3000 s3)"

definition home_onClick :: "env \<Rightarrow> app \<Rightarrow> app" where
  \<comment> \<open>the Home button\<close>
  "home_onClick env s = navigateToUrl env ''/google-home.html'' s"

definition quickAccess_onClick :: "env \<Rightarrow> string \<times> string \<Rightarrow> app \<Rightarrow> app" where
  \<comment> \<open>a quick-access button, one for each of \<open>safeSites\<close>\<close>
  "quickAccess_onClick env site s = navigateToUrl env (snd site) s"

subsection \<open>Numbers read from text\<close>

text \<open>
  \<^verbatim>\<open>parseFloat\<close> of ECMAScript: leading white space is dropped, then the longest
  prefix that is a decimal literal (a sign, then \<^verbatim>\<open>Infinity\<close> or digits with an optional
  fraction and an optional exponent) is read; when there is none the result is
  \<^verbatim>\<open>NaN\<close>. \<open>Finite q\<close> stands for the Number nearest to the rational \<open>q\<close>, the exact
  value of the literal.

  The white space that is dropped is every code point of \<^verbatim>\<open>WhiteSpace\<close> and
  \<^verbatim>\<open>LineTerminator\<close>: TAB, LF, VT, FF, CR, the space, and beyond ASCII U+00A0, U+1680,
  U+2000 to U+200A, U+2028, U+2029, U+202F, U+205F, U+3000 and U+FEFF, each as its UTF-8
  bytes. Signs, digits, the point, the exponent letter and \<^verbatim>\<open>Infinity\<close> are ASCII in
  ECMAScript too.
\<close>

datatype jsnumber = NaN | Finite rat | Infinity bool

definition whiteSpace :: "string list" where
  "whiteSpace =
     [[CHR 0x09], [CHR 0x0A], [CHR 0x0B], [CHR 0x0C], [CHR 0x0D], [CHR 0x20],
      [CHR 0xC2, CHR 0xA0],
      [CHR 0xE1, CHR 0x9A, CHR 0x80],
      [CHR 0xE2, CHR 0x80, CHR 0x80], [CHR 0xE2, CHR 0x80, CHR 0x81],
      [CHR 0xE2, CHR 0x80, CHR 0x82], [CHR 0xE2, CHR 0x80, CHR 0x83],
      [CHR 0xE2, CHR 0x80, CHR 0x84], [CHR 0xE2, CHR 0x80, CHR 0x85],
      [CHR 0xE2, CHR 0x80, CHR 0x86], [CHR 0xE2, CHR 0x80, CHR 0x87],
      [CHR 0xE2, CHR 0x80, CHR 0x88], [CHR 0xE2, CHR 0x80, CHR 0x89],
      [CHR 0xE2, CHR 0x80, CHR 0x8A],
      [CHR 0xE2, CHR 0x80, CHR 0xA8], [CHR 0xE2, CHR 0x80, CHR 0xA9],
      [CHR 0xE2, CHR 0x80, CHR 0xAF],
      [CHR 0xE2, CHR 0x81, CHR 0x9F],
      [CHR 0xE3, CHR 0x80, CHR 0x80],
      [CHR 0xEF, CHR 0xBB, CHR 0xBF]]"

definition leadingWhiteSpace :: "string \<Rightarrow> string option" where
  \<comment> \<open>the white space code point the text starts with, if it starts with one\<close>
  "leadingWhiteSpace s = find (startsWith s) whiteSpace"

function trimStart :: "string \<Rightarrow> string" where
  \<comment> \<open>\<^verbatim>\<open>TrimString(s, start)\<close>\<close>
  "trimStart s = (case leadingWhiteSpace s of None \<Rightarrow> s | Some p \<Rightarrow> trimStart (drop (length p) s))"
  by pat_completeness auto
termination
proof (relation "measure length")
  show "wf (measure length)"
    by simp
next
  fix s p :: string
  assume "leadingWhiteSpace s = Some p"
  then have "p \<in> set whiteSpace" and "startsWith s p"
    by (auto simp: leadingWhiteSpace_def find_Some_iff)
  then have "p \<noteq> []" and "take (length p) s = p"
    by (auto simp: whiteSpace_def startsWith_def)
  then have "s \<noteq> []"
    by auto
  with \<open>p \<noteq> []\<close> show "(drop (length p) s, s) \<in> measure length"
    by simp
qed

declare trimStart.simps [simp del]

definition isDigit :: "char \<Rightarrow> bool" where
  "isDigit c = (c \<in> set ''0123456789'')"

definition digits_value :: "string \<Rightarrow> nat" where
  "digits_value ds = foldl (\<lambda>a c. 10 * a + (of_char c - 48)) 0 ds"

definition split_sign :: "string \<Rightarrow> bool \<times> string" where
  \<comment> \<open>an optional \<^verbatim>\<open>+\<close> or \<^verbatim>\<open>-\<close>; \<open>True\<close> for minus\<close>
  "split_sign cs = (case cs of [] \<Rightarrow> (False, [])
     | c # r \<Rightarrow> if c = CHR ''-'' then (True, r) else if c = CHR ''+'' then (False, r) else (False, cs))"

definition exponent_of :: "string \<Rightarrow> int" where
  \<comment> \<open>the exponent part at the head of the text, \<open>0\<close> when there is none (an \<^verbatim>\<open>e\<close> without digits is not one)\<close>
  "exponent_of r = (case r of [] \<Rightarrow> 0
     | c # cs \<Rightarrow>
         if c = CHR ''e'' \<or> c = CHR ''E'' then
           (let (eneg, ds) = split_sign cs; ed = takeWhile isDigit ds
            in if ed = [] then 0 else if eneg then - int (digits_value ed) else int (digits_value ed))
         else 0)"

definition parseFloat :: "string \<Rightarrow> jsnumber" where
  "parseFloat inputString =
     (let trimmed = trimStart inputString;
          (neg, rest) = split_sign trimmed
      in if startsWith rest ''Infinity'' then Infinity neg
         else
           (let ip = takeWhile isDigit rest;
                r1 = dropWhile isDigit rest;
                (fp, r2) = (case r1 of [] \<Rightarrow> ([], [])
                   | c # cs \<Rightarrow> if c = CHR ''.'' then (takeWhile isDigit cs, dropWhile isDigit cs)
                              else ([], r1))
            in if ip = [] \<and> fp = [] then NaN
               else
                 (let m = (of_nat (digits_value (ip @ fp)) :: rat) / 10 ^ length fp;
                      e = exponent_of r2;
                      v = (if 0 \<le> e then m * 10 ^ nat e else m / 10 ^ nat (- e))
                  in Finite (if neg then - v else v))))"

fun le_zero :: "jsnumber \<Rightarrow> bool" where
  \<comment> \<open>\<^verbatim>\<open>x <= 0\<close>: false for \<^verbatim>\<open>NaN\<close>; a literal of at most \<open>2\<^sup>-\<^sup>1\<^sup>0\<^sup>7\<^sup>5\<close>, half the least
     positive Number, is read as zero\<close>
  "le_zero NaN = False"
| "le_zero (Infinity neg) = neg"
| "le_zero (Finite q) = (q \<le> 1 / 2 ^ 1075)"

subsection \<open>Steps of a handler\<close>

text \<open>
  A \<^verbatim>\<open>try\<close> block either runs to its end (or to a \<^verbatim>\<open>return\<close>) or throws; both carry
  the state reached. The steps that can throw take the rest of the block as a
  continuation.
\<close>

datatype 'a result = Return 'a app | Throw string app

definition setLoading :: "bool \<Rightarrow> app \<Rightarrow> app" where
  "setLoading b s = s\<lparr> loading := b \<rparr>"

definition setItem :: "string \<Rightarrow> string \<Rightarrow> app \<Rightarrow> app" where
  \<comment> \<open>\<^verbatim>\<open>localStorage.setItem(k, v)\<close>\<close>
  "setItem k v s = s\<lparr> localStorage := (localStorage s)(k \<mapsto> v), writes := writes s @ [(k, v)] \<rparr>"

definition draw_UUID :: "env \<Rightarrow> app \<Rightarrow> string \<times> app" where
  \<comment> \<open>\<^verbatim>\<open>crypto.randomUUID()\<close>\<close>
  "draw_UUID env s = (randomUUID env (draws s), s\<lparr> draws := Suc (draws s) \<rparr>)"

definition new_Wallet :: "env \<Rightarrow> string \<Rightarrow> app \<Rightarrow> (string \<Rightarrow> app \<Rightarrow> 'a result) \<Rightarrow> 'a result" where
  \<comment> \<open>\<^verbatim>\<open>new ethers.Wallet(key, provider)\<close>: throws on a key that is none, else has an address\<close>
  "new_Wallet env key s k = (case addressOfKey env key of Inl e \<Rightarrow> Throw e s | Inr a \<Rightarrow> k a s)"

definition await_balanceOf ::
  "env \<Rightarrow> string \<Rightarrow> string \<Rightarrow> app \<Rightarrow> (int \<Rightarrow> app \<Rightarrow> 'a result) \<Rightarrow> 'a result" where
  \<comment> \<open>\<^verbatim>\<open>await contract.balanceOf(owner)\<close>\<close>
  "await_balanceOf env c owner s k =
     (let s' = s\<lparr> calls := calls s @ [BalanceOf c owner] \<rparr>
      in case balanceOf env c owner of Inl e \<Rightarrow> Throw e s' | Inr b \<Rightarrow> k b s')"

definition await_send :: "env \<Rightarrow> tx \<Rightarrow> app \<Rightarrow> (string \<Rightarrow> app \<Rightarrow> 'a result) \<Rightarrow> 'a result" where
  \<comment> \<open>\<^verbatim>\<open>await contract.f(...)\<close> for a state-changing \<^verbatim>\<open>f\<close>: the transaction, with its hash\<close>
  "await_send env t s k =
     (let s' = s\<lparr> calls := calls s @ [Send t] \<rparr>
      in case sendTx env t of Inl e \<Rightarrow> Throw e s' | Inr hash \<Rightarrow> k hash s')"

definition await_wait :: "env \<Rightarrow> tx \<Rightarrow> app \<Rightarrow> (nat \<Rightarrow> app \<Rightarrow> 'a result) \<Rightarrow> 'a result" where
  \<comment> \<open>\<^verbatim>\<open>await tx.wait()\<close>: the receipt, with its block number\<close>
  "await_wait env t s k =
     (let s' = s\<lparr> calls := calls s @ [Wait t] \<rparr>
      in case waitTx env t of Inl e \<Rightarrow> Throw e s' | Inr blockNumber \<Rightarrow> k blockNumber s')"

definition parseUnits :: "env \<Rightarrow> string \<Rightarrow> app \<Rightarrow> (int \<Rightarrow> app \<Rightarrow> 'a result) \<Rightarrow> 'a result" where
  \<comment> \<open>\<^verbatim>\<open>ethers.parseUnits(text, 6)\<close> of a text the user typed\<close>
  "parseUnits env text s k = (case parseUnits6 env text of Inl e \<Rightarrow> Throw e s | Inr v \<Rightarrow> k v s)"

definition catch :: "unit result \<Rightarrow> (string \<Rightarrow> app \<Rightarrow> app) \<Rightarrow> app" where
  \<comment> \<open>\<^verbatim>\<open>try { ... } catch (error) { handler }\<close>\<close>
  "catch r handler = (case r of Return _ s \<Rightarrow> s | Throw e s \<Rightarrow> handler e s)"

subsection \<open>Wallet identity\<close>

definition join_bar :: "string list \<Rightarrow> string" where
  \<comment> \<open>\<^verbatim>\<open>xs.join('|')\<close>\<close>
  "join_bar xs = (case xs of [] \<Rightarrow> [] | x # r \<Rightarrow> foldl (\<lambda>a y. a @ ''|'' @ y) x r)"

definition generateDeviceFingerprint :: "env \<Rightarrow> app \<Rightarrow> string \<times> app" where
  "generateDeviceFingerprint env s =
     (let stored = localStorage s ''burgerbrows_device_id'';
          (device_id, s1) = (if truthy stored then (the stored, s) else draw_UUID env s);
          fingerprint = join_bar
            [userAgent env,
             language env,
             show_nat (fst (screenSize env)) @ ''x'' @ show_nat (snd (screenSize env)),
             timezoneOffset env,
             canvasDataURL env,
             device_id]
      in (keccak256 env fingerprint, s1))"

text \<open>
  The wallet hook has the type \<^verbatim>\<open>UserWallet | null\<close>, and so has what \<open>JSON_parse\<close>
  returns; a stored text that \<^verbatim>\<open>JSON.parse\<close> reads as any other value is outside
  this model. On \<^verbatim>\<open>null\<close> the code sets the hook and then throws, when it reads
  \<^verbatim>\<open>walletData.address\<close> for the log line.
\<close>

definition initializeWallet :: "env \<Rightarrow> app \<Rightarrow> UserWallet result" where
  "initializeWallet env s =
     (let stored = localStorage s ''burgerbrows_wallet''
      in if truthy stored then
           (case JSON_parse env (the stored) of
              Inl e \<Rightarrow> Throw e s
            | Inr None \<Rightarrow>
                (let s1 = s\<lparr> wallet := None \<rparr>
                 in Throw (nullReadError env) s1)
            | Inr (Some walletData) \<Rightarrow>
                (let s1 = s\<lparr> wallet := Some walletData \<rparr>;
                     s2 = addLog env (e_wave @ '' Welcome back! Loaded wallet: ''
                            @ slice_to 20 (address walletData) @ ''...'') s1
                 in Return walletData s2))
         else
           (let (fingerprint, s1) = generateDeviceFingerprint env s;
                newWallet = createRandom env (draws s1);
                s2 = s1\<lparr> draws := Suc (draws s1) \<rparr>;
                walletData = \<lparr> address = fst newWallet, privateKey = snd newWallet,
                               deviceHash = slice_to 16 fingerprint \<rparr>;
                s3 = setItem ''burgerbrows_wallet'' (JSON_stringify env walletData) s2;
                (uuid, s4) = draw_UUID env s3;
                s5 = setItem ''burgerbrows_device_id'' uuid s4;
                s6 = s5\<lparr> wallet := Some walletData \<rparr>;
                s7 = addLog env (e_new @ '' New wallet created: ''
                       @ slice_to 20 (address walletData) @ ''...'') s6;
                s8 = addLog env (e_bust @ '' Device ID: '' @ deviceHash walletData) s7
            in Return walletData s8))"

definition state_of :: "'a result \<Rightarrow> app" where
  "state_of r = (case r of Return _ s \<Rightarrow> s | Throw _ s \<Rightarrow> s)"

definition value_of :: "'a result \<Rightarrow> 'a option" where
  "value_of r = (case r of Return v _ \<Rightarrow> Some v | Throw _ _ \<Rightarrow> None)"

text \<open>The identity resolver called \<open>n\<close> times, each call on the state the one before left.\<close>

fun initializeWallet_times :: "env \<Rightarrow> nat \<Rightarrow> app \<Rightarrow> app" where
  "initializeWallet_times env 0 s = s"
| "initializeWallet_times env (Suc n) s = initializeWallet_times env n (state_of (initializeWallet env s))"

subsection \<open>Wallet operations of the first page (lines 1 to 678)\<close>

text \<open>
  \<^verbatim>\<open>page.tsx\<close> holds the component twice. The first page has its contract addresses,
  its RPC endpoint and the key of the faucet wallet written in the code, and has the peer
  transfer. The constant amounts are \<^verbatim>\<open>ethers.parseUnits('100', 6)\<close>,
  \<^verbatim>\<open>parseUnits('50', 6)\<close> and \<^verbatim>\<open>parseUnits('10', 6)\<close>: the token has six decimals.
\<close>

definition USDC_ADDRESS :: string where
  "USDC_ADDRESS = ''0xE32f7a8eB4Fb132675292306A5928071d126F082''"

definition BROWSER_VAULT :: string where
  "BROWSER_VAULT = ''0x9dAE42f31DB601fD0094c05d5b52Eb0a3074f786''"

definition faucet_key :: string where
  "faucet_key = ''0x05b40792c4a08ab87063e304a619f586921473c6bd74834e322a9fc202951eec''"

definition mintAmount :: int where "mintAmount = 100 * 10 ^ 6"
definition depositAmount :: int where "depositAmount = 50 * 10 ^ 6"
definition rewardAmount :: int where "rewardAmount = 10 * 10 ^ 6"

definition checkBalance :: "env \<Rightarrow> string option \<Rightarrow> string option \<Rightarrow> app \<Rightarrow> app" where
  \<comment> \<open>the two arguments are optional: the provider instance and the address\<close>
  "checkBalance env providerInstance addr s =
     (if provider s = None \<and> providerInstance = None then s
      else if wallet s = None \<and> \<not> truthy addr then s
      else
        (let walletAddress = (if truthy addr then the addr else address (the (wallet s)));
             tried =
               (let s1 = setLoading True s;
                    s2 = addLog env (e_bank @ '' Checking USDC balance...'') s1
                in await_balanceOf env USDC_ADDRESS walletAddress s2 (\<lambda>balance s3.
                   let formattedBalance = formatUnits6 env balance;
                       s4 = s3\<lparr> balance := formattedBalance \<rparr>;
                       s5 = addLog env (e_moneybag @ '' USDC Balance: '' @ formattedBalance) s4
                   in Return () s5));
             caught = catch tried (\<lambda>error. addLog env (e_cross @ '' Error checking balance: '' @ error))
         in setLoading False caught))"

text \<open>What a timer of the first page does when it fires.\<close>

fun fire :: "env \<Rightarrow> callback \<Rightarrow> app \<Rightarrow> app" where
  "fire env CheckBalance s = checkBalance env None None s"
| "fire env BrowsingActivity s = addLog env (e_eyes @ '' Browsing activity detected - earning rewards!'') s"

definition mintTestUSDC :: "env \<Rightarrow> app \<Rightarrow> app" where
  "mintTestUSDC env s =
     (if provider s = None \<or> wallet s = None then s
      else
        (let w = the (wallet s);
             tried =
               (let s1 = setLoading True s;
                    s2 = addLog env (e_tap @ '' Getting 100 test USDC from faucet...'') s1
                in new_Wallet env faucet_key s2 (\<lambda>faucetWallet s3.
                   let t = Mint faucet_key USDC_ADDRESS (address w) mintAmount;
                       s4 = addLog env (e_target @ '' Minting to your wallet: ''
                              @ slice_to 20 (address w) @ ''...'') s3
                   in await_send env t s4 (\<lambda>hash s5.
                      let s6 = addLog env (e_outbox @ '' Transaction sent: '' @ slice_to 20 hash @ ''...'') s5
                      in await_wait env t s6 (\<lambda>blockNumber s7.
                         let s8 = addLog env (e_check @ '' USDC minted successfully!'') s7;
                             s9 = addLog env (e_link @ '' Block: '' @ show_nat blockNumber) s8
                         in Return () (setTimeout CheckBalance 2000 s9)))));
             caught = catch tried (\<lambda>error. addLog env (e_cross @ '' Faucet error: '' @ error))
         in setLoading False caught))"

definition depositUSDC :: "env \<Rightarrow> app \<Rightarrow> app" where
  "depositUSDC env s =
     (if provider s = None \<or> wallet s = None then s
      else
        (let w = the (wallet s);
             tried =
               (let s1 = setLoading True s;
                    s2 = addLog env (e_bank @ '' Preparing USDC deposit to BrowserVault...'') s1
                in new_Wallet env (privateKey w) s2 (\<lambda>userWallet s3.
                   await_balanceOf env USDC_ADDRESS (address w) s3 (\<lambda>balance s4.
                     if balance = 0 then
                       Return () (addLog env (e_cross @ '' No USDC to deposit. Use faucet first!'') s4)
                     else if balance < depositAmount then
                       Return () (addLog env (e_cross @ '' Insufficient balance. Need 50 USDC, have ''
                                     @ formatUnits6 env balance) s4)
                     else
                       (let t = Approve (privateKey w) USDC_ADDRESS BROWSER_VAULT depositAmount;
                            s5 = addLog env (e_lock @ '' Approving USDC spending...'') s4
                        in await_send env t s5 (\<lambda>approveTx s6.
                           await_wait env t s6 (\<lambda>receipt s7.
                             let s8 = addLog env (e_bank @ '' Depositing 50 USDC to vault...'') s7;
                                 s9 = addLog env (e_check @ '' Would deposit 50 USDC to BrowserVault'') s8;
                                 s10 = addLog env (e_memo @ '' Note: Full vault integration requires contract ABI'') s9
                             in Return () (setTimeout CheckBalance 2000 s10)))))));
             caught = catch tried (\<lambda>error. addLog env (e_cross @ '' Deposit error: '' @ error))
         in setLoading False caught))"

definition claimRewards :: "env \<Rightarrow> app \<Rightarrow> app" where
  "claimRewards env s =
     (if provider s = None \<or> wallet s = None then s
      else
        (let w = the (wallet s);
             tried =
               (let s1 = setLoading True s;
                    s2 = addLog env (e_gift @ '' Claiming browsing rewards...'') s1
                in new_Wallet env faucet_key s2 (\<lambda>faucetWallet s3.
                   let t = Mint faucet_key USDC_ADDRESS (address w) rewardAmount;
                       s4 = addLog env (e_trophy @ '' Distributing 10 USDC browsing reward...'') s3
                   in await_send env t s4 (\<lambda>hash s5.
                      let s6 = addLog env (e_outbox @ '' Reward transaction: '' @ slice_to 20 hash @ ''...'') s5
                      in await_wait env t s6 (\<lambda>blockNumber s7.
                         let s8 = addLog env (e_check @ '' Rewards claimed successfully!'') s7;
                             s9 = addLog env (e_party @ '' +10 USDC for active browsing'') s8
                         in Return () (setTimeout CheckBalance 2000 s9)))));
             caught = catch tried (\<lambda>error. addLog env (e_cross @ '' Claim error: '' @ error))
         in setLoading False caught))"

definition transferUSDC :: "env \<Rightarrow> string \<Rightarrow> string \<Rightarrow> app \<Rightarrow> app" where
  "transferUSDC env toAddress amount s =
     (if provider s = None \<or> wallet s = None then s
      else
        (let w = the (wallet s);
             tried =
               (let s1 = setLoading True s;
                    s2 = addLog env (e_money @ '' Preparing to send '' @ amount @ '' USDC...'') s1
                in if \<not> isAddress env toAddress then
                     Return () (addLog env (e_cross @ '' Invalid recipient address'') s2)
                   else if le_zero (parseFloat amount) then
                     Return () (addLog env (e_cross @ '' Invalid amount'') s2)
                   else
                     new_Wallet env (privateKey w) s2 (\<lambda>userWallet s3.
                       await_balanceOf env USDC_ADDRESS (address w) s3 (\<lambda>currentBalance s4.
                         parseUnits env amount s4 (\<lambda>transferAmount s5.
                           if currentBalance < transferAmount then
                             Return () (addLog env (e_cross @ '' Insufficient balance. Have ''
                                           @ formatUnits6 env currentBalance @ '' USDC'') s5)
                           else
                             (let t = Transfer (privateKey w) USDC_ADDRESS toAddress transferAmount;
                                  s6 = addLog env (e_outbox @ '' Sending '' @ amount @ '' USDC to ''
                                         @ slice_to 8 toAddress @ ''...'' @ slice_last 4 toAddress) s5
                              in await_send env t s6 (\<lambda>hash s7.
                                 let s8 = addLog env (e_cycle @ '' Transaction submitted: ''
                                            @ slice_to 20 hash @ ''...'') s7
                                 in await_wait env t s8 (\<lambda>blockNumber s9.
                                    let s10 = addLog env (e_check @ '' Transfer completed!'') s9;
                                        s11 = addLog env (e_link @ '' Block: '' @ show_nat blockNumber) s10
                                    in Return () (setTimeout CheckBalance 2000 s11))))))));
             caught = catch tried (\<lambda>error. addLog env (e_cross @ '' Transfer failed: '' @ error))
         in setLoading False caught))"

text \<open>The buttons of the wallet panel of the first page.\<close>

definition mint_onClick :: "env \<Rightarrow> app \<Rightarrow> app" where
  "mint_onClick env s = (mintTestUSDC env s)\<lparr> showWalletPopup := False \<rparr>"

definition deposit_onClick :: "env \<Rightarrow> app \<Rightarrow> app" where
  "deposit_onClick env s = (depositUSDC env s)\<lparr> showWalletPopup := False \<rparr>"

definition claim_onClick :: "env \<Rightarrow> app \<Rightarrow> app" where
  "claim_onClick env s = (claimRewards env s)\<lparr> showWalletPopup := False \<rparr>"

definition send_onClick :: "env \<Rightarrow> app \<Rightarrow> app" where
  "send_onClick env s =
     (if transferAddress s \<noteq> [] \<and> transferAmount s \<noteq> [] then
        (transferUSDC env (transferAddress s) (transferAmount s) s)
          \<lparr> transferAddress := [], transferAmount := [], showWalletPopup := False \<rparr>
      else s)"

subsection \<open>Wallet operations of the second page (lines 679 to 1318)\<close>

text \<open>
  The second page reads its contract addresses, its endpoint and the key of the
  hackathon wallet from \<^verbatim>\<open>process.env\<close>, deposits into the vault, pays the reward by a
  transfer, and has no peer transfer. Its buttons await the operation and then schedule
  a balance refresh of their own.
\<close>

definition mintTestUSDC2 :: "env \<Rightarrow> app \<Rightarrow> app" where
  "mintTestUSDC2 env s =
     (if provider s = None \<or> wallet s = None then s
      else if \<not> truthy (env_MOCK_USDC env) then
        addLog env (e_cross @ '' MockUSDC contract not configured'') s
      else
        (let w = the (wallet s);
             MOCK_USDC = the (env_MOCK_USDC env);
             tried =
               (let s1 = setLoading True s;
                    s2 = addLog env (e_tap @ '' Minting 100 test USDC from MockUSDC faucet...'') s1;
                    hackathonPrivateKey = env_HACKATHON_PRIVATE_KEY env
                in if \<not> truthy hackathonPrivateKey then
                     Return () (addLog env (e_cross @ '' Hackathon wallet not configured'') s2)
                   else
                     new_Wallet env (the hackathonPrivateKey) s2 (\<lambda>hackathonWallet s3.
                       let t = Mint (the hackathonPrivateKey) MOCK_USDC (address w) mintAmount;
                           s4 = addLog env (e_target @ '' Minting to your wallet: ''
                                  @ slice_to 20 (address w) @ ''...'') s3
                       in await_send env t s4 (\<lambda>hash s5.
                          let s6 = addLog env (e_outbox @ '' Mint transaction sent: ''
                                     @ slice_to 20 hash @ ''...'') s5
                          in await_wait env t s6 (\<lambda>blockNumber s7.
                             let s8 = addLog env (e_check @ '' MockUSDC minted successfully!'') s7;
                                 s9 = addLog env (e_link @ '' Block: '' @ show_nat blockNumber) s8
                             in Return () (setTimeout CheckBalance 2000 s9)))));
             caught = catch tried (\<lambda>error. addLog env (e_cross @ '' Mint error: '' @ error))
         in setLoading False caught))"

definition depositUSDC2 :: "env \<Rightarrow> app \<Rightarrow> app" where
  "depositUSDC2 env s =
     (if provider s = None \<or> wallet s = None then s
      else if \<not> truthy (env_MOCK_USDC env) \<or> \<not> truthy (env_BROWSER_VAULT env) then
        addLog env (e_cross @ '' Contract addresses not configured'') s
      else
        (let w = the (wallet s);
             MOCK_USDC = the (env_MOCK_USDC env);
             VAULT = the (env_BROWSER_VAULT env);
             tried =
               (let s1 = setLoading True s;
                    s2 = addLog env (e_bank @ '' Preparing MockUSDC deposit to BrowserVault...'') s1
                in new_Wallet env (privateKey w) s2 (\<lambda>userWallet s3.
                   await_balanceOf env MOCK_USDC (address w) s3 (\<lambda>balance s4.
                     if balance = 0 then
                       Return () (addLog env (e_cross @ '' No MockUSDC to deposit. Use faucet first!'') s4)
                     else if balance < depositAmount then
                       Return () (addLog env (e_cross @ '' Insufficient balance. Need 50 MockUSDC, have ''
                                     @ formatUnits6 env balance) s4)
                     else
                       (let approval = Approve (privateKey w) MOCK_USDC VAULT depositAmount;
                            s5 = addLog env (e_lock @ '' Approving BrowserVault to spend MockUSDC...'') s4
                        in await_send env approval s5 (\<lambda>approveTx s6.
                           await_wait env approval s6 (\<lambda>approved s7.
                             let s8 = addLog env (e_check @ '' Approval confirmed'') s7;
                                 s9 = addLog env (e_bank @ '' Depositing 50 MockUSDC to BrowserVault...'') s8;
                                 t = Deposit (privateKey w) VAULT depositAmount
                             in await_send env t s9 (\<lambda>hash s10.
                                let s11 = addLog env (e_outbox @ '' Deposit transaction: ''
                                            @ slice_to 20 hash @ ''...'') s10
                                in await_wait env t s11 (\<lambda>blockNumber s12.
                                   let s13 = addLog env (e_check @ '' Successfully deposited 50 MockUSDC to vault!'') s12;
                                       s14 = addLog env (e_unknown @ '' Block: '' @ show_nat blockNumber) s13
                                   in Return () (setTimeout CheckBalance 2000 s14)))))))));
             caught = catch tried (\<lambda>error. addLog env (e_cross @ '' Deposit error: '' @ error))
         in setLoading False caught))"

definition claimRewards2 :: "env \<Rightarrow> app \<Rightarrow> app" where
  "claimRewards2 env s =
     (if provider s = None \<or> wallet s = None then s
      else if \<not> truthy (env_MOCK_USDC env) then
        addLog env (e_cross @ '' MockUSDC contract not configured'') s
      else
        (let w = the (wallet s);
             MOCK_USDC = the (env_MOCK_USDC env);
             tried =
               (let s1 = setLoading True s;
                    s2 = addLog env (e_gift @ '' Claiming browsing rewards...'') s1;
                    hackathonPrivateKey = env_HACKATHON_PRIVATE_KEY env
                in if \<not> truthy hackathonPrivateKey then
                     Return () (addLog env (e_cross @ '' Hackathon wallet not configured'') s2)
                   else
                     new_Wallet env (the hackathonPrivateKey) s2 (\<lambda>hackathonWallet s3.
                       await_balanceOf env MOCK_USDC hackathonWallet s3 (\<lambda>hackathonBalance s4.
                         if hackathonBalance < rewardAmount then
                           Return () (addLog env (e_cross @ '' Insufficient reward funds. Available: ''
                                         @ formatUnits6 env hackathonBalance @ '' USDC'') s4)
                         else
                           (let t = Transfer (the hackathonPrivateKey) MOCK_USDC (address w) rewardAmount;
                                s5 = addLog env (e_trophy @ '' Distributing 10 USDC browsing reward...'') s4
                            in await_send env t s5 (\<lambda>hash s6.
                               let s7 = addLog env (e_outbox @ '' Reward transaction: ''
                                          @ slice_to 20 hash @ ''...'') s6
                               in await_wait env t s7 (\<lambda>blockNumber s8.
                                  let s9 = addLog env (e_check @ '' Rewards claimed successfully!'') s8;
                                      s10 = addLog env (e_party @ '' +10 USDC for active browsing'') s9
                                  in Return () (setTimeout CheckBalance 2000 s10)))))));
             caught = catch tried (\<lambda>error. addLog env (e_cross @ '' Claim error: '' @ error))
         in setLoading False caught))"

text \<open>The buttons of the wallet panel of the second page.\<close>

definition mint_onClick2 :: "env \<Rightarrow> app \<Rightarrow> app" where
  "mint_onClick2 env s = setTimeout CheckBalance 3000 (mintTestUSDC2 env s)"

definition deposit_onClick2 :: "env \<Rightarrow> app \<Rightarrow> app" where
  "deposit_onClick2 env s = setTimeout CheckBalance 3000 (depositUSDC2 env s)"

definition claim_onClick2 :: "env \<Rightarrow> app \<Rightarrow> app" where
  "claim_onClick2 env s = setTimeout CheckBalance 3000 (claimRewards2 env s)"

subsection \<open>A sample environment\<close>

text \<open>
  One concrete environment and one concrete state, for running the handlers: a chain that
  reports the same balance \<open>b\<close> for every owner and accepts every transaction, a codec
  for the wallet record, tests of addresses and keys by their shape, amounts in whole
  tokens. Keys are 32 bytes and addresses 20 bytes in hexadecimal; the address given for
  a key is a stand-in of the right shape, not the one the curve gives.
\<close>

definition dq :: string where
  "dq = [CHR 0x22]"

definition wallet_to_json :: "UserWallet \<Rightarrow> string" where
  "wallet_to_json w = ''{'' @ dq @ ''address'' @ dq @ '':'' @ dq @ address w @ dq
     @ '','' @ dq @ ''privateKey'' @ dq @ '':'' @ dq @ privateKey w @ dq
     @ '','' @ dq @ ''deviceHash'' @ dq @ '':'' @ dq @ deviceHash w @ dq @ ''}''"

definition expect :: "string \<Rightarrow> string \<Rightarrow> string option" where
  "expect p s = (if startsWith s p then Some (drop (length p) s) else None)"

definition quoted :: "string \<Rightarrow> string \<times> string" where
  \<comment> \<open>the text up to the next double quote, and the rest from that quote on\<close>
  "quoted s = (takeWhile (\<lambda>c. c \<noteq> CHR 0x22) s, dropWhile (\<lambda>c. c \<noteq> CHR 0x22) s)"

definition wallet_of_json :: "string \<Rightarrow> string + UserWallet option" where
  "wallet_of_json s =
     (if s = ''null'' then Inr None
      else
        (case expect (''{'' @ dq @ ''address'' @ dq @ '':'' @ dq) s of
           None \<Rightarrow> Inl ''SyntaxError''
         | Some r1 \<Rightarrow>
             (case expect (dq @ '','' @ dq @ ''privateKey'' @ dq @ '':'' @ dq) (snd (quoted r1)) of
                None \<Rightarrow> Inl ''SyntaxError''
              | Some r2 \<Rightarrow>
                  (case expect (dq @ '','' @ dq @ ''deviceHash'' @ dq @ '':'' @ dq) (snd (quoted r2)) of
                     None \<Rightarrow> Inl ''SyntaxError''
                   | Some r3 \<Rightarrow>
                       if snd (quoted r3) = dq @ ''}''
                       then Inr (Some \<lparr> address = fst (quoted r1), privateKey = fst (quoted r2),
                                        deviceHash = fst (quoted r3) \<rparr>)
                       else Inl ''SyntaxError''))))"

definition hex_text :: "nat \<Rightarrow> string \<Rightarrow> bool" where
  \<comment> \<open>\<^verbatim>\<open>0x\<close> and then \<open>n\<close> hexadecimal digits\<close>
  "hex_text n a = (length a = n + 2 \<and> take 2 a = ''0x''
     \<and> list_all (\<lambda>c. c \<in> set ''0123456789abcdefABCDEF'') (drop 2 a))"

definition hex_address :: "string \<Rightarrow> bool" where
  "hex_address a = hex_text 40 a"

definition address_of_hex_key :: "string \<Rightarrow> string + string" where
  "address_of_hex_key k = (if hex_text 64 k then Inr (''0x'' @ take 40 (drop 2 k))
     else Inl ''TypeError: invalid private key'')"

definition whole_units :: "string \<Rightarrow> string + int" where
  "whole_units t = (if t \<noteq> [] \<and> list_all isDigit t then Inr (int (digits_value t) * 10 ^ 6)
     else Inl ''TypeError: invalid FixedNumber string value'')"

definition units_text :: "int \<Rightarrow> string" where
  "units_text n = show_nat (nat n div 10 ^ 6) @ ''.'' @ show_nat (nat n mod 10 ^ 6)"

definition sample_env :: "int \<Rightarrow> env" where
  "sample_env b = \<lparr>
     clock = (\<lambda>i. ''t'' @ show_nat i),
     randomUUID = (\<lambda>i. ''uuid-'' @ show_nat i),
     createRandom = (\<lambda>i.
       (''0x'' @ [digit_char (i mod 10)] @ ''bbbbbbbbbbbbbbbbbbbbbbbbbbbbbbbbbbbbbbb'',
        ''0x'' @ [digit_char (i mod 10)] @ ''bbbbbbbbbbbbbbbbbbbbbbbbbbbbbbbbbbbbbbbbbbbbbbbbbbbbbbbbbbbbbbb'')),
     keccak256 = (\<lambda>x. ''0x0123456789abcdef0123456789abcdef0123456789abcdef0123456789abcdef''),
     userAgent = ''Mozilla/5.0'',
     language = ''en-US'',
     screenSize = (1920, 1080),
     timezoneOffset = ''0'',
     canvasDataURL = ''data:image/png;base64,'',
     JSON_parse = wallet_of_json,
     JSON_stringify = wallet_to_json,
     nullReadError = ''TypeError: walletData is null'',
     isAddress = hex_address,
     parseUnits6 = whole_units,
     formatUnits6 = units_text,
     addressOfKey = address_of_hex_key,
     balanceOf = (\<lambda>c owner. Inr b),
     sendTx = (\<lambda>t. Inr ''0x7e57ed0000000000000000000000000000000000000000000000000000000001''),
     waitTx = (\<lambda>t. Inr 7),
     env_MOCK_USDC = Some ''0xE32f7a8eB4Fb132675292306A5928071d126F082'',
     env_BROWSER_VAULT = Some ''0x9dAE42f31DB601fD0094c05d5b52Eb0a3074f786'',
     env_REWARD_POOL = Some ''0xc7Fd8EF7Ee3e93e8eff2E12715E504aDfbaE3750'',
     env_RPC_URL = Some ''https://rpc.example'',
     env_HACKATHON_PRIVATE_KEY = Some faucet_key \<rparr>"

definition sample_wallet :: UserWallet where
  "sample_wallet = \<lparr> address = ''0x2222222222222222222222222222222222222222'',
     privateKey = ''0x2222222222222222222222222222222222222222222222222222222222222222'',
     deviceHash = ''0x0123456789abcd'' \<rparr>"

definition sample_app :: app where
  "sample_app = initial_app\<lparr> provider := Some ''https://rpc.example'', wallet := Some sample_wallet \<rparr>"

section \<open>Properties\<close>

lemma currentUrl_addLog [simp]: "currentUrl (addLog env m s) = currentUrl s"
  by (simp add: addLog_def Let_def)

lemma currentUrl_setTimeout [simp]: "currentUrl (setTimeout cb ms s) = currentUrl s"
  by (simp add: setTimeout_def)

subsection \<open>Activity log\<close>

lemma logs_addLog:
  "logs (addLog env m s) = slice_last 10 (logs s) @ [''['' @ clock env (ticks s) @ ''] '' @ m]"
  by (simp add: addLog_def Let_def)

lemma ticks_addLog: "ticks (addLog env m s) = Suc (ticks s)"
  by (simp add: addLog_def Let_def)

lemma slice_last_step: "slice_last 10 xs @ [y] = slice_last 11 (xs @ [y])"
  by (simp add: slice_last_def)

lemma slice_last_absorb: "slice_last 11 (slice_last 11 xs @ ys) = slice_last 11 (xs @ ys)"
proof -
  have "length xs + length ys - (length xs - 11 + 11) + (length xs - 11) = length xs + length ys - 11"
    by arith
  then show ?thesis by (simp add: slice_last_def)
qed

lemma logs_addLogs:
  "ms \<noteq> [] \<Longrightarrow> logs (addLogs env ms s) = slice_last 11 (logs s @ stamped env (ticks s) ms)"
proof (induction ms arbitrary: s)
  case Nil
  then show ?case by simp
next
  case (Cons m ms)
  show ?case
  proof (cases "ms = []")
    case True
    then show ?thesis by (simp add: logs_addLog slice_last_step)
  next
    case False
    from Cons.IH [OF False, of "addLog env m s"]
    have "logs (addLogs env (m # ms) s) =
      slice_last 11 (slice_last 11 (logs s @ [''['' @ clock env (ticks s) @ ''] '' @ m])
        @ stamped env (Suc (ticks s)) ms)"
      by (simp add: logs_addLog ticks_addLog slice_last_step)
    then show ?thesis by (simp add: slice_last_absorb)
  qed
qed

text \<open>
  C6. The activity log is append-only and bounded to 11 entries, oldest first: one
  \<open>addLog\<close> keeps the last 10 entries it finds, in their order, and puts the new entry
  behind them, so the log never holds more than 11; after any messages have been
  appended the log is the last 11 entries of everything that was ever in it, in the
  order of insertion.
\<close>

theorem addLog_keeps_most_recent_11:
  "logs (addLog env m s) = slice_last 10 (logs s) @ [''['' @ clock env (ticks s) @ ''] '' @ m]
   \<and> length (logs (addLog env m s)) \<le> 11
   \<and> (ms \<noteq> [] \<longrightarrow>
        logs (addLogs env ms s) = slice_last 11 (logs s @ stamped env (ticks s) ms)
        \<and> length (logs (addLogs env ms s)) \<le> 11)"
proof -
  have one: "logs (addLog env m s) = slice_last 10 (logs s) @ [''['' @ clock env (ticks s) @ ''] '' @ m]"
    by (rule logs_addLog)
  have bound: "length (logs (addLog env m s)) \<le> 11"
    by (simp add: logs_addLog slice_last_def)
  have many: "logs (addLogs env ms s) = slice_last 11 (logs s @ stamped env (ticks s) ms)"
    if "ms \<noteq> []"
    using that by (rule logs_addLogs)
  have "length (logs (addLogs env ms s)) \<le> 11" if "ms \<noteq> []"
    using many [OF that] by (simp add: slice_last_def)
  with one bound many show ?thesis by blast
qed

text \<open>
  Fifteen messages appended to the single entry the page starts with: the first entry
  and the first four messages are gone, the eleven messages \<open>m05\<close> to \<open>m15\<close> are left, in
  the order they came.
\<close>

theorem addLog_keeps_most_recent_11_witness:
  "[''m01'', ''m02'', ''m03'', ''m04'', ''m05'', ''m06'', ''m07'', ''m08'', ''m09'', ''m10'',
    ''m11'', ''m12'', ''m13'', ''m14'', ''m15''] \<noteq> ([] :: string list)
   \<and> length (logs initial_app) = 1
   \<and> logs (addLogs (sample_env 0)
        [''m01'', ''m02'', ''m03'', ''m04'', ''m05'', ''m06'', ''m07'', ''m08'', ''m09'', ''m10'',
         ''m11'', ''m12'', ''m13'', ''m14'', ''m15''] initial_app)
      = [''[t4] m05'', ''[t5] m06'', ''[t6] m07'', ''[t7] m08'', ''[t8] m09'', ''[t9] m10'',
         ''[t10] m11'', ''[t11] m12'', ''[t12] m13'', ''[t13] m14'', ''[t14] m15'']"
  using addLog_keeps_most_recent_11 [of "sample_env 0" "''m''" initial_app
    "[''m01'', ''m02'', ''m03'', ''m04'', ''m05'', ''m06'', ''m07'', ''m08'', ''m09'', ''m10'',
      ''m11'', ''m12'', ''m13'', ''m14'', ''m15'']"]
  by (simp add: initial_app_def sample_env_def slice_last_def show_nat.simps)

subsection \<open>Browser viewport\<close>

lemma currentUrl_navigateToUrl:
  "currentUrl (navigateToUrl env url s) =
     (if \<not> startsWith url ''http://'' \<and> \<not> startsWith url ''https://'' then ''https://'' @ url else url)"
  by (simp add: navigateToUrl_def Let_def)

text \<open>
  C8. \<open>navigateToUrl\<close> puts \<^verbatim>\<open>https://\<close> before a URL that starts with neither
  \<^verbatim>\<open>http://\<close> nor \<^verbatim>\<open>https://\<close>, so \<^verbatim>\<open>example.com\<close> becomes
  \<^verbatim>\<open>https://example.com\<close>, and leaves a URL that starts with one of the two as it is.
\<close>

theorem navigateToUrl_normalizes_scheme:
  "currentUrl (navigateToUrl env ''example.com'' s) = ''https://example.com''
   \<and> (\<not> startsWith url ''http://'' \<and> \<not> startsWith url ''https://''
        \<longrightarrow> currentUrl (navigateToUrl env url s) = ''https://'' @ url)
   \<and> (startsWith url ''http://'' \<or> startsWith url ''https://''
        \<longrightarrow> currentUrl (navigateToUrl env url s) = url)"
proof -
  have "currentUrl (navigateToUrl env ''example.com'' s) = ''https://example.com''"
    by (simp add: currentUrl_navigateToUrl startsWith_def)
  then show ?thesis
    by (auto simp: currentUrl_navigateToUrl)
qed

theorem navigateToUrl_normalizes_scheme_witness:
  "\<not> startsWith ''en.wikipedia.org/wiki/Burger'' ''http://''
   \<and> \<not> startsWith ''en.wikipedia.org/wiki/Burger'' ''https://''
   \<and> currentUrl (navigateToUrl (sample_env 0) ''en.wikipedia.org/wiki/Burger'' initial_app)
       = ''https://en.wikipedia.org/wiki/Burger''
   \<and> startsWith ''http://example.com'' ''http://''
   \<and> currentUrl (navigateToUrl (sample_env 0) ''http://example.com'' initial_app)
       = ''http://example.com''
   \<and> startsWith ''https://ethereum.org'' ''https://''
   \<and> currentUrl (navigateToUrl (sample_env 0) ''https://ethereum.org'' initial_app)
       = ''https://ethereum.org''"
  using navigateToUrl_normalizes_scheme [of "sample_env 0" initial_app "''en.wikipedia.org/wiki/Burger''"]
    navigateToUrl_normalizes_scheme [of "sample_env 0" initial_app "''http://example.com''"]
    navigateToUrl_normalizes_scheme [of "sample_env 0" initial_app "''https://ethereum.org''"]
  by (simp add: startsWith_def)

text \<open>
  C10. The prefix goes before every URL that starts with neither scheme, the page's own
  root-relative paths included: the Home button and the Google quick-access button call
  \<open>navigateToUrl\<close> with \<^verbatim>\<open>/google-home.html\<close>, and the viewport is sent to
  \<^verbatim>\<open>https:///google-home.html\<close>, not to the local path.
\<close>

theorem home_path_gets_scheme_prefix:
  "currentUrl (home_onClick env s) = ''https:///google-home.html''
   \<and> (''Google'', ''/google-home.html'') \<in> set safeSites
   \<and> currentUrl (quickAccess_onClick env (''Google'', ''/google-home.html'') s)
       = ''https:///google-home.html''
   \<and> currentUrl (home_onClick env s) \<noteq> ''/google-home.html''"
  by (simp add: home_onClick_def quickAccess_onClick_def safeSites_def
      currentUrl_navigateToUrl startsWith_def)


subsection \<open>Deposit\<close>

lemmas step_defs = setLoading_def setTimeout_def addLog_def new_Wallet_def await_balanceOf_def
  await_send_def await_wait_def parseUnits_def catch_def Let_def

text \<open>
  C4. With a balance below the deposit amount of 50 tokens the deposit aborts before the
  approve step: the one call that goes to the chain is the balance read, no transaction
  is sent, and the log gets the line that says what is missing: that there is no USDC at
  all when the balance is 0, else the 50 needed and the balance held. No refresh is
  scheduled and the busy flag is cleared.
\<close>

theorem depositUSDC_aborts_below_deposit_amount:
  assumes "provider s \<noteq> None" and "wallet s = Some w"
    and "addressOfKey env (privateKey w) = Inr a"
    and "balanceOf env USDC_ADDRESS (address w) = Inr b"
    and "b < depositAmount"
  shows "depositAmount = 50 * 10 ^ 6
    \<and> calls (depositUSDC env s) = calls s @ [BalanceOf USDC_ADDRESS (address w)]
    \<and> logs (depositUSDC env s) = logs (addLogs env
         [e_bank @ '' Preparing USDC deposit to BrowserVault...'',
          if b = 0 then e_cross @ '' No USDC to deposit. Use faucet first!''
          else e_cross @ '' Insufficient balance. Need 50 USDC, have '' @ formatUnits6 env b] s)
    \<and> timers (depositUSDC env s) = timers s
    \<and> \<not> loading (depositUSDC env s)"
  using assms by (simp add: depositUSDC_def depositAmount_def step_defs)

theorem depositUSDC_aborts_below_deposit_amount_witness:
  "provider sample_app \<noteq> None \<and> wallet sample_app = Some sample_wallet
   \<and> addressOfKey (sample_env 0) (privateKey sample_wallet) = Inr ''0x2222222222222222222222222222222222222222''
   \<and> balanceOf (sample_env 0) USDC_ADDRESS (address sample_wallet) = Inr 0
   \<and> balanceOf (sample_env (30 * 10 ^ 6)) USDC_ADDRESS (address sample_wallet) = Inr (30 * 10 ^ 6)
   \<and> (0 :: int) < depositAmount \<and> (30 * 10 ^ 6 :: int) < depositAmount
   \<and> calls (depositUSDC (sample_env 0) sample_app) = [BalanceOf USDC_ADDRESS (address sample_wallet)]
   \<and> calls (depositUSDC (sample_env (30 * 10 ^ 6)) sample_app)
       = [BalanceOf USDC_ADDRESS (address sample_wallet)]
   \<and> last (logs (depositUSDC (sample_env 0) sample_app))
       = ''[t1] '' @ e_cross @ '' No USDC to deposit. Use faucet first!''
   \<and> last (logs (depositUSDC (sample_env (30 * 10 ^ 6)) sample_app))
       = ''[t1] '' @ e_cross @ '' Insufficient balance. Need 50 USDC, have 30.0''"
proof -
  have h: "provider sample_app \<noteq> None" "wallet sample_app = Some sample_wallet"
    by (simp_all add: sample_app_def initial_app_def)
  have k: "addressOfKey (sample_env b) (privateKey sample_wallet) = Inr ''0x2222222222222222222222222222222222222222''" for b
    by (simp add: sample_env_def sample_wallet_def address_of_hex_key_def hex_text_def)
  have b0: "balanceOf (sample_env 0) USDC_ADDRESS (address sample_wallet) = Inr 0"
    and b30: "balanceOf (sample_env (30 * 10 ^ 6)) USDC_ADDRESS (address sample_wallet) = Inr (30 * 10 ^ 6)"
    by (simp_all add: sample_env_def)
  have lt: "(0 :: int) < depositAmount" "(30 * 10 ^ 6 :: int) < depositAmount"
    by (simp_all add: depositAmount_def)
  have fmt: "formatUnits6 (sample_env (30 * 10 ^ 6)) (30 * 10 ^ 6) = ''30.0''"
    by (simp add: sample_env_def units_text_def show_nat.simps)
  have c0: "clock (sample_env b) (Suc (ticks sample_app)) = ''t1''" for b
    by (simp add: sample_env_def sample_app_def initial_app_def show_nat.simps)
  note r0 = depositUSDC_aborts_below_deposit_amount [OF h k b0 lt(1)]
  note r30 = depositUSDC_aborts_below_deposit_amount [OF h k b30 lt(2)]
  have "calls sample_app = []"
    by (simp add: sample_app_def initial_app_def)
  with h k b0 b30 lt r0 r30 fmt c0 show ?thesis
    by (simp add: addLog_def Let_def)
qed

lemma depositUSDC2_aborts_below_deposit_amount:
  assumes "provider s \<noteq> None" and "wallet s = Some w"
    and "env_MOCK_USDC env = Some usdc" and "usdc \<noteq> []"
    and "env_BROWSER_VAULT env = Some vault" and "vault \<noteq> []"
    and "addressOfKey env (privateKey w) = Inr a"
    and "balanceOf env usdc (address w) = Inr b"
    and "b < depositAmount"
  shows "calls (depositUSDC2 env s) = calls s @ [BalanceOf usdc (address w)]
    \<and> logs (depositUSDC2 env s) = logs (addLogs env
         [e_bank @ '' Preparing MockUSDC deposit to BrowserVault...'',
          if b = 0 then e_cross @ '' No MockUSDC to deposit. Use faucet first!''
          else e_cross @ '' Insufficient balance. Need 50 MockUSDC, have '' @ formatUnits6 env b] s)
    \<and> timers (depositUSDC2 env s) = timers s"
  using assms by (simp add: depositUSDC2_def truthy_def step_defs)

subsection \<open>Peer transfer\<close>

lemma parseFloat_zero: "parseFloat ''0'' = Finite 0"
  by (simp add: parseFloat_def trimStart.simps leadingWhiteSpace_def whiteSpace_def
      split_sign_def startsWith_def isDigit_def digits_value_def exponent_of_def Let_def)



text \<open>
  C7. The peer transfer tests the recipient address first and the amount second. An
  address that \<^verbatim>\<open>ethers.isAddress\<close> rejects ends the transfer with the
  invalid-address line, whatever the amount is; a good address with an amount that is
  \<open>\<le> 0\<close>, such as \<^verbatim>\<open>"0"\<close>, ends it with the invalid-amount line. In both cases nothing
  goes to the chain: no balance read, no transaction.
\<close>

theorem transferUSDC_validation_short_circuits:
  assumes "provider s \<noteq> None" and "wallet s \<noteq> None"
  shows "(\<not> isAddress env toAddress \<longrightarrow>
            logs (transferUSDC env toAddress amount s) = logs (addLogs env
              [e_money @ '' Preparing to send '' @ amount @ '' USDC...'',
               e_cross @ '' Invalid recipient address''] s)
            \<and> calls (transferUSDC env toAddress amount s) = calls s)
    \<and> (isAddress env toAddress \<and> le_zero (parseFloat amount) \<longrightarrow>
            logs (transferUSDC env toAddress amount s) = logs (addLogs env
              [e_money @ '' Preparing to send '' @ amount @ '' USDC...'',
               e_cross @ '' Invalid amount''] s)
            \<and> calls (transferUSDC env toAddress amount s) = calls s)
    \<and> le_zero (parseFloat ''0'')"
proof -
  from assms obtain p w where "provider s = Some p" and "wallet s = Some w"
    by auto
  then show ?thesis
    by (simp add: transferUSDC_def parseFloat_zero step_defs)
qed

theorem transferUSDC_validation_short_circuits_witness:
  "provider sample_app \<noteq> None \<and> wallet sample_app \<noteq> None
   \<and> \<not> isAddress (sample_env 0) ''not-an-address''
   \<and> isAddress (sample_env 0) ''0x1111111111111111111111111111111111111111''
   \<and> le_zero (parseFloat ''0'')
   \<and> last (logs (transferUSDC (sample_env 0) ''not-an-address'' ''0'' sample_app))
       = ''[t1] '' @ e_cross @ '' Invalid recipient address''
   \<and> calls (transferUSDC (sample_env 0) ''not-an-address'' ''0'' sample_app) = []
   \<and> last (logs (transferUSDC (sample_env 0) ''0x1111111111111111111111111111111111111111'' ''0'' sample_app))
       = ''[t1] '' @ e_cross @ '' Invalid amount''
   \<and> calls (transferUSDC (sample_env 0) ''0x1111111111111111111111111111111111111111'' ''0'' sample_app) = []"
proof -
  have h: "provider sample_app \<noteq> None" "wallet sample_app \<noteq> None"
    by (simp_all add: sample_app_def initial_app_def)
  have bad: "\<not> isAddress (sample_env 0) ''not-an-address''"
    by (simp add: sample_env_def hex_address_def hex_text_def)
  have good: "isAddress (sample_env 0) ''0x1111111111111111111111111111111111111111''"
    by (simp add: sample_env_def hex_address_def hex_text_def)
  have c0: "clock (sample_env 0) (Suc (ticks sample_app)) = ''t1''"
    by (simp add: sample_env_def sample_app_def initial_app_def show_nat.simps)
  have e: "calls sample_app = []"
    by (simp add: sample_app_def initial_app_def)
  note r1 = transferUSDC_validation_short_circuits
    [OF h, of "sample_env 0" "''not-an-address''" "''0''"]
  note r2 = transferUSDC_validation_short_circuits
    [OF h, of "sample_env 0" "''0x1111111111111111111111111111111111111111''" "''0''"]
  from h bad good c0 e r1 r2 show ?thesis
    by (simp add: addLog_def Let_def)
qed




subsection \<open>Wallet identity\<close>

lemma initializeWallet_stored:
  assumes "localStorage s ''burgerbrows_wallet'' = Some str" and "str \<noteq> []"
    and "JSON_parse env str = Inr (Some w)"
  shows "initializeWallet env s = Return w
    (addLog env (e_wave @ '' Welcome back! Loaded wallet: '' @ slice_to 20 (address w) @ ''...'')
       (s\<lparr> wallet := Some w \<rparr>))"
  using assms by (simp add: initializeWallet_def truthy_def Let_def)

lemma initializeWallet_stored_state:
  assumes "localStorage s ''burgerbrows_wallet'' = Some str" and "str \<noteq> []"
    and "JSON_parse env str = Inr (Some w)"
  shows "localStorage (state_of (initializeWallet env s)) = localStorage s"
    and "writes (state_of (initializeWallet env s)) = writes s"
    and "value_of (initializeWallet env s) = Some w"
  using initializeWallet_stored [OF assms]
  by (simp_all add: state_of_def value_of_def addLog_def Let_def)

lemma initializeWallet_times_stored:
  assumes "localStorage s ''burgerbrows_wallet'' = Some str" and "str \<noteq> []"
    and "JSON_parse env str = Inr (Some w)"
  shows "writes (initializeWallet_times env n s) = writes s"
  using assms
proof (induction n arbitrary: s)
  case 0
  then show ?case by simp
next
  case (Suc n)
  have same: "localStorage (state_of (initializeWallet env s)) = localStorage s"
    and w: "writes (state_of (initializeWallet env s)) = writes s"
    using initializeWallet_stored_state [OF Suc.prems] by simp_all
  from Suc.prems same
  have "localStorage (state_of (initializeWallet env s)) ''burgerbrows_wallet'' = Some str"
    by simp
  from Suc.IH [OF this Suc.prems(2) Suc.prems(3)] w show ?case
    by simp
qed

lemma initializeWallet_fresh:
  assumes "\<not> truthy (localStorage s ''burgerbrows_wallet'')"
    and "initializeWallet env s = Return w s1"
  shows "localStorage s1 ''burgerbrows_wallet'' = Some (JSON_stringify env w)"
    and "\<exists>uuid. writes s1 = writes s @ [(''burgerbrows_wallet'', JSON_stringify env w),
                                        (''burgerbrows_device_id'', uuid)]"
  using assms
  by (auto simp: initializeWallet_def generateDeviceFingerprint_def draw_UUID_def setItem_def
      addLog_def Let_def split: prod.splits if_splits)

text \<open>
  C5. The identity resolver returns a stored wallet record as it is and writes nothing:
  once a call has returned the wallet \<open>w\<close>, the next call returns the same \<open>w\<close> (the
  same address and private key), and no later call writes to storage, however many
  follow. Storage is written on one occasion only, the call that finds no record and
  creates the wallet; that call stores the wallet record and the device id. The
  hypotheses on \<^verbatim>\<open>JSON\<close> say that the text written for \<open>w\<close> is not empty and reads
  back as \<open>w\<close>.
\<close>

theorem initializeWallet_identity_persists:
  assumes "initializeWallet env s = Return w s1"
    and "JSON_stringify env w \<noteq> []"
    and "JSON_parse env (JSON_stringify env w) = Inr (Some w)"
  shows "value_of (initializeWallet env s1) = Some w
    \<and> writes (state_of (initializeWallet env s1)) = writes s1
    \<and> localStorage (state_of (initializeWallet env s1)) = localStorage s1
    \<and> writes (initializeWallet_times env n s1) = writes s1
    \<and> (truthy (localStorage s ''burgerbrows_wallet'') \<longrightarrow>
          JSON_parse env (the (localStorage s ''burgerbrows_wallet'')) = Inr (Some w)
          \<and> writes s1 = writes s \<and> localStorage s1 = localStorage s)
    \<and> (\<not> truthy (localStorage s ''burgerbrows_wallet'') \<longrightarrow>
          (\<exists>uuid. writes s1 = writes s @ [(''burgerbrows_wallet'', JSON_stringify env w),
                                          (''burgerbrows_device_id'', uuid)]))"
proof (cases "truthy (localStorage s ''burgerbrows_wallet'')")
  case True
  then obtain str where str: "localStorage s ''burgerbrows_wallet'' = Some str" "str \<noteq> []"
    by (auto simp: truthy_def split: option.splits)
  from assms(1) str have parsed: "JSON_parse env str = Inr (Some w)"
    by (auto simp: initializeWallet_def truthy_def Let_def split: sum.splits option.splits)
  from initializeWallet_stored_state [OF str parsed] assms(1)
  have first: "localStorage s1 = localStorage s" "writes s1 = writes s"
    by (simp_all add: state_of_def)
  from str first have str1: "localStorage s1 ''burgerbrows_wallet'' = Some str"
    by simp
  note second = initializeWallet_stored_state [OF str1 str(2) parsed]
  note later = initializeWallet_times_stored [OF str1 str(2) parsed, of n]
  from True str parsed first second later show ?thesis
    by simp
next
  case False
  note fresh = initializeWallet_fresh [OF False assms(1)]
  note second = initializeWallet_stored_state [OF fresh(1) assms(2) assms(3)]
  note later = initializeWallet_times_stored [OF fresh(1) assms(2) assms(3), of n]
  from False fresh(2) second later show ?thesis
    by simp
qed

text \<open>
  On empty storage: the first call creates the wallet and makes the two writes, the
  second call returns the same wallet, and after four more calls the writes are still
  those two.
\<close>

theorem initializeWallet_identity_persists_witness:
  "initializeWallet (sample_env 0) initial_app
     = Return \<lparr> address = ''0x1bbbbbbbbbbbbbbbbbbbbbbbbbbbbbbbbbbbbbbb'',
          privateKey = ''0x1bbbbbbbbbbbbbbbbbbbbbbbbbbbbbbbbbbbbbbbbbbbbbbbbbbbbbbbbbbbbbbb'',
          deviceHash = ''0x0123456789abcd'' \<rparr>
         (state_of (initializeWallet (sample_env 0) initial_app))
   \<and> JSON_stringify (sample_env 0)
        \<lparr> address = ''0x1bbbbbbbbbbbbbbbbbbbbbbbbbbbbbbbbbbbbbbb'',
          privateKey = ''0x1bbbbbbbbbbbbbbbbbbbbbbbbbbbbbbbbbbbbbbbbbbbbbbbbbbbbbbbbbbbbbbb'',
          deviceHash = ''0x0123456789abcd'' \<rparr> \<noteq> []
   \<and> JSON_parse (sample_env 0) (JSON_stringify (sample_env 0)
        \<lparr> address = ''0x1bbbbbbbbbbbbbbbbbbbbbbbbbbbbbbbbbbbbbbb'',
          privateKey = ''0x1bbbbbbbbbbbbbbbbbbbbbbbbbbbbbbbbbbbbbbbbbbbbbbbbbbbbbbbbbbbbbbb'',
          deviceHash = ''0x0123456789abcd'' \<rparr>)
       = Inr (Some \<lparr> address = ''0x1bbbbbbbbbbbbbbbbbbbbbbbbbbbbbbbbbbbbbbb'',
          privateKey = ''0x1bbbbbbbbbbbbbbbbbbbbbbbbbbbbbbbbbbbbbbbbbbbbbbbbbbbbbbbbbbbbbbb'',
          deviceHash = ''0x0123456789abcd'' \<rparr>)
   \<and> \<not> truthy (localStorage initial_app ''burgerbrows_wallet'')
   \<and> value_of (initializeWallet (sample_env 0) (state_of (initializeWallet (sample_env 0) initial_app)))
       = Some \<lparr> address = ''0x1bbbbbbbbbbbbbbbbbbbbbbbbbbbbbbbbbbbbbbb'',
          privateKey = ''0x1bbbbbbbbbbbbbbbbbbbbbbbbbbbbbbbbbbbbbbbbbbbbbbbbbbbbbbbbbbbbbbb'',
          deviceHash = ''0x0123456789abcd'' \<rparr>
   \<and> map fst (writes (initializeWallet_times (sample_env 0) 4
        (state_of (initializeWallet (sample_env 0) initial_app))))
       = [''burgerbrows_wallet'', ''burgerbrows_device_id'']"
proof -
  let ?w = "\<lparr> address = ''0x1bbbbbbbbbbbbbbbbbbbbbbbbbbbbbbbbbbbbbbb'',
          privateKey = ''0x1bbbbbbbbbbbbbbbbbbbbbbbbbbbbbbbbbbbbbbbbbbbbbbbbbbbbbbbbbbbbbbb'',
          deviceHash = ''0x0123456789abcd'' \<rparr>"
  let ?s1 = "state_of (initializeWallet (sample_env 0) initial_app)"
  have "value_of (initializeWallet (sample_env 0) initial_app) = Some ?w"
    by code_simp
  then have first: "initializeWallet (sample_env 0) initial_app = Return ?w ?s1"
    by (cases "initializeWallet (sample_env 0) initial_app") (simp_all add: value_of_def state_of_def)
  have nonempty: "JSON_stringify (sample_env 0) ?w \<noteq> []"
    by (simp add: sample_env_def wallet_to_json_def)
  have reread: "JSON_parse (sample_env 0) (JSON_stringify (sample_env 0) ?w) = Inr (Some ?w)"
    by (simp add: sample_env_def wallet_to_json_def wallet_of_json_def expect_def quoted_def
        startsWith_def dq_def)
  have empty: "\<not> truthy (localStorage initial_app ''burgerbrows_wallet'')"
    "writes initial_app = []"
    by (simp_all add: truthy_def initial_app_def)
  from initializeWallet_identity_persists [OF first nonempty reread, of 4] first nonempty reread empty
  show ?thesis
    by auto
qed

subsection \<open>Claim reward\<close>

lemma sample_app_ready:
  "provider sample_app = Some ''https://rpc.example''" "wallet sample_app = Some sample_wallet"
  "calls sample_app = []" "timers sample_app = []" "ticks sample_app = 0"
  by (simp_all add: sample_app_def initial_app_def)

lemma claimRewards_run:
  assumes "provider s = Some rpc" and "wallet s = Some w"
    and "addressOfKey env faucet_key = Inr a"
    and "sendTx env (Mint faucet_key USDC_ADDRESS (address w) rewardAmount) = Inr h"
    and "waitTx env (Mint faucet_key USDC_ADDRESS (address w) rewardAmount) = Inr n"
  shows "calls (claimRewards env s) = calls s @
           [Send (Mint faucet_key USDC_ADDRESS (address w) rewardAmount),
            Wait (Mint faucet_key USDC_ADDRESS (address w) rewardAmount)]"
    and "timers (claimRewards env s) = timers s @ [(CheckBalance, 2000)]"
  using assms by (simp_all add: claimRewards_def step_defs)

text \<open>
  C1. On the first page the claim-reward operation reads no balance and sends a
  \<^verbatim>\<open>mint\<close>: with a faucet wallet whose balance is 0, below the reward of 10 tokens, the
  calls issued are the mint of the reward to the user and the wait for its receipt, and
  the refresh is scheduled.
\<close>

theorem claimRewards_mints_without_balance_check:
  "addressOfKey (sample_env 0) faucet_key = Inr ''0x05b40792c4a08ab87063e304a619f586921473c6''
   \<and> balanceOf (sample_env 0) USDC_ADDRESS ''0x05b40792c4a08ab87063e304a619f586921473c6'' = Inr 0
   \<and> (0 :: int) < rewardAmount
   \<and> calls (claimRewards (sample_env 0) sample_app)
     = [Send (Mint faucet_key USDC_ADDRESS (address sample_wallet) rewardAmount),
        Wait (Mint faucet_key USDC_ADDRESS (address sample_wallet) rewardAmount)]
   \<and> timers (claimRewards (sample_env 0) sample_app) = [(CheckBalance, 2000)]"
proof -
  have k: "addressOfKey (sample_env 0) faucet_key = Inr ''0x05b40792c4a08ab87063e304a619f586921473c6''"
    by (simp add: sample_env_def faucet_key_def address_of_hex_key_def hex_text_def)
  have b: "balanceOf (sample_env 0) USDC_ADDRESS ''0x05b40792c4a08ab87063e304a619f586921473c6'' = Inr 0"
    by (simp add: sample_env_def)
  have tx: "sendTx (sample_env 0) t
      = Inr ''0x7e57ed0000000000000000000000000000000000000000000000000000000001''"
    "waitTx (sample_env 0) t = Inr 7" for t
    by (simp_all add: sample_env_def)
  from claimRewards_run [OF sample_app_ready(1,2) k tx] k b show ?thesis
    by (simp add: sample_app_ready rewardAmount_def)
qed

text \<open>
  The claim-reward operation of the second page does what C1 says: it reads the balance
  of the hackathon wallet first; below the reward it logs the shortfall and sends
  nothing; else it sends a \<^verbatim>\<open>transfer\<close> of the reward to the user.
\<close>

lemma claimRewards2_insufficient:
  assumes "provider s = Some rpc" and "wallet s = Some w"
    and "env_MOCK_USDC env = Some usdc" and "usdc \<noteq> []"
    and "env_HACKATHON_PRIVATE_KEY env = Some key" and "key \<noteq> []"
    and "addressOfKey env key = Inr hackathon"
    and "balanceOf env usdc hackathon = Inr b"
    and "b < rewardAmount"
  shows "calls (claimRewards2 env s) = calls s @ [BalanceOf usdc hackathon]"
    and "logs (claimRewards2 env s) = logs (addLogs env
           [e_gift @ '' Claiming browsing rewards...'',
            e_cross @ '' Insufficient reward funds. Available: '' @ formatUnits6 env b @ '' USDC''] s)"
    and "timers (claimRewards2 env s) = timers s"
  using assms by (simp_all add: claimRewards2_def truthy_def step_defs)

lemma claimRewards2_transfers:
  assumes "provider s = Some rpc" and "wallet s = Some w"
    and "env_MOCK_USDC env = Some usdc" and "usdc \<noteq> []"
    and "env_HACKATHON_PRIVATE_KEY env = Some key" and "key \<noteq> []"
    and "addressOfKey env key = Inr hackathon"
    and "balanceOf env usdc hackathon = Inr b"
    and "rewardAmount \<le> b"
    and "sendTx env (Transfer key usdc (address w) rewardAmount) = Inr h"
    and "waitTx env (Transfer key usdc (address w) rewardAmount) = Inr n"
  shows "calls (claimRewards2 env s) = calls s @
           [BalanceOf usdc hackathon,
            Send (Transfer key usdc (address w) rewardAmount),
            Wait (Transfer key usdc (address w) rewardAmount)]"
  using assms by (simp add: claimRewards2_def truthy_def step_defs)

subsection \<open>Deposit into the vault\<close>

lemma depositUSDC_run:
  assumes "provider s = Some rpc" and "wallet s = Some w"
    and "addressOfKey env (privateKey w) = Inr a"
    and "balanceOf env USDC_ADDRESS (address w) = Inr b" and "depositAmount \<le> b"
    and "sendTx env (Approve (privateKey w) USDC_ADDRESS BROWSER_VAULT depositAmount) = Inr h"
    and "waitTx env (Approve (privateKey w) USDC_ADDRESS BROWSER_VAULT depositAmount) = Inr n"
  shows "calls (depositUSDC env s) = calls s @
           [BalanceOf USDC_ADDRESS (address w),
            Send (Approve (privateKey w) USDC_ADDRESS BROWSER_VAULT depositAmount),
            Wait (Approve (privateKey w) USDC_ADDRESS BROWSER_VAULT depositAmount)]"
    and "logs (depositUSDC env s) = logs (addLogs env
           [e_bank @ '' Preparing USDC deposit to BrowserVault...'',
            e_lock @ '' Approving USDC spending...'',
            e_bank @ '' Depositing 50 USDC to vault...'',
            e_check @ '' Would deposit 50 USDC to BrowserVault'',
            e_memo @ '' Note: Full vault integration requires contract ABI''] s)"
  using assms by (simp_all add: depositUSDC_def depositAmount_def step_defs)

text \<open>
  C2. On the first page the deposit operation, with a balance of 100 tokens, reads the
  balance, sends the \<^verbatim>\<open>approve\<close> and waits for it, and then sends nothing more: there
  is no \<^verbatim>\<open>deposit\<close> call, the log says what would be deposited.
\<close>

theorem depositUSDC_sends_no_deposit:
  "balanceOf (sample_env (100 * 10 ^ 6)) USDC_ADDRESS (address sample_wallet) = Inr (100 * 10 ^ 6)
   \<and> depositAmount \<le> 100 * 10 ^ 6
   \<and> calls (depositUSDC (sample_env (100 * 10 ^ 6)) sample_app)
     = [BalanceOf USDC_ADDRESS (address sample_wallet),
        Send (Approve (privateKey sample_wallet) USDC_ADDRESS BROWSER_VAULT depositAmount),
        Wait (Approve (privateKey sample_wallet) USDC_ADDRESS BROWSER_VAULT depositAmount)]
   \<and> logs (depositUSDC (sample_env (100 * 10 ^ 6)) sample_app)
     = logs (addLogs (sample_env (100 * 10 ^ 6))
           [e_bank @ '' Preparing USDC deposit to BrowserVault...'',
            e_lock @ '' Approving USDC spending...'',
            e_bank @ '' Depositing 50 USDC to vault...'',
            e_check @ '' Would deposit 50 USDC to BrowserVault'',
            e_memo @ '' Note: Full vault integration requires contract ABI''] sample_app)"
proof -
  have k: "addressOfKey (sample_env b) (privateKey sample_wallet) = Inr ''0x2222222222222222222222222222222222222222''" for b
    by (simp add: sample_env_def sample_wallet_def address_of_hex_key_def hex_text_def)
  have b: "balanceOf (sample_env (100 * 10 ^ 6)) USDC_ADDRESS (address sample_wallet) = Inr (100 * 10 ^ 6)"
    by (simp add: sample_env_def)
  have le: "depositAmount \<le> 100 * 10 ^ 6"
    by (simp add: depositAmount_def)
  have tx: "sendTx (sample_env b) t
      = Inr ''0x7e57ed0000000000000000000000000000000000000000000000000000000001''"
    "waitTx (sample_env b) t = Inr 7" for b t
    by (simp_all add: sample_env_def)
  from depositUSDC_run [OF sample_app_ready(1,2) k b le tx] b le show ?thesis
    by (simp add: sample_app_ready)
qed

text \<open>
  The deposit operation of the second page does what C2 says: balance read, approve
  signed with the user's key, deposit on the vault signed with the user's key.
\<close>

lemma depositUSDC2_run:
  assumes "provider s = Some rpc" and "wallet s = Some w"
    and "env_MOCK_USDC env = Some usdc" and "usdc \<noteq> []"
    and "env_BROWSER_VAULT env = Some vault" and "vault \<noteq> []"
    and "addressOfKey env (privateKey w) = Inr a"
    and "balanceOf env usdc (address w) = Inr b" and "depositAmount \<le> b"
    and "sendTx env (Approve (privateKey w) usdc vault depositAmount) = Inr h1"
    and "waitTx env (Approve (privateKey w) usdc vault depositAmount) = Inr n1"
    and "sendTx env (Deposit (privateKey w) vault depositAmount) = Inr h2"
    and "waitTx env (Deposit (privateKey w) vault depositAmount) = Inr n2"
  shows "calls (depositUSDC2 env s) = calls s @
           [BalanceOf usdc (address w),
            Send (Approve (privateKey w) usdc vault depositAmount),
            Wait (Approve (privateKey w) usdc vault depositAmount),
            Send (Deposit (privateKey w) vault depositAmount),
            Wait (Deposit (privateKey w) vault depositAmount)]"
  using assms by (simp add: depositUSDC2_def truthy_def depositAmount_def step_defs)

subsection \<open>Balance refresh\<close>

lemma transferUSDC_invalid_address:
  assumes "provider s = Some rpc" and "wallet s = Some w" and "\<not> isAddress env toAddress"
  shows "logs (transferUSDC env toAddress amount s) = logs (addLogs env
           [e_money @ '' Preparing to send '' @ amount @ '' USDC...'',
            e_cross @ '' Invalid recipient address''] s)"
    and "calls (transferUSDC env toAddress amount s) = calls s"
    and "timers (transferUSDC env toAddress amount s) = timers s"
  using assms by (simp_all add: transferUSDC_def step_defs)

lemma mintTestUSDC_rejected:
  assumes "provider s = Some rpc" and "wallet s = Some w"
    and "addressOfKey env faucet_key = Inr a"
    and "sendTx env (Mint faucet_key USDC_ADDRESS (address w) mintAmount) = Inl e"
  shows "timers (mintTestUSDC env s) = timers s"
    and "logs (mintTestUSDC env s) = logs (addLogs env
           [e_tap @ '' Getting 100 test USDC from faucet...'',
            e_target @ '' Minting to your wallet: '' @ slice_to 20 (address w) @ ''...'',
            e_cross @ '' Faucet error: '' @ e] s)"
  using assms by (simp_all add: mintTestUSDC_def step_defs)

text \<open>
  C3. On the first page an operation that fails schedules no refresh: after a transfer
  to \<^verbatim>\<open>not-an-address\<close>, and after a mint whose transaction the chain rejects, the
  list of timers is empty.
\<close>

theorem failed_operation_schedules_no_refresh:
  "timers (send_onClick (sample_env 0)
      (sample_app\<lparr> transferAddress := ''not-an-address'', transferAmount := ''5'' \<rparr>)) = []
   \<and> timers (mint_onClick ((sample_env 0)\<lparr> sendTx := \<lambda>t. Inl ''Error: reverted'' \<rparr>) sample_app) = []"
proof -
  let ?s = "sample_app\<lparr> transferAddress := ''not-an-address'', transferAmount := ''5'' \<rparr>"
  have bad: "\<not> isAddress (sample_env 0) ''not-an-address''"
    by (simp add: sample_env_def hex_address_def hex_text_def)
  have s: "provider ?s = Some ''https://rpc.example''" "wallet ?s = Some sample_wallet"
    "timers ?s = []" "transferAddress ?s = ''not-an-address''" "transferAmount ?s = ''5''"
    by (simp_all add: sample_app_ready)
  have k: "addressOfKey ((sample_env 0)\<lparr> sendTx := \<lambda>t. Inl ''Error: reverted'' \<rparr>) faucet_key
      = Inr ''0x05b40792c4a08ab87063e304a619f586921473c6''"
    by (simp add: sample_env_def faucet_key_def address_of_hex_key_def hex_text_def)
  have rej: "sendTx ((sample_env 0)\<lparr> sendTx := \<lambda>t. Inl ''Error: reverted'' \<rparr>) t
      = Inl ''Error: reverted''" for t
    by simp
  from transferUSDC_invalid_address(3) [OF s(1,2) bad, of "''5''"]
    mintTestUSDC_rejected(1) [OF sample_app_ready(1,2) k rej] s
  show ?thesis
    by (simp add: send_onClick_def mint_onClick_def sample_app_ready)
qed

text \<open>
  The buttons of the second page schedule the refresh after the operation whatever it
  did: the last timer is the refresh at 3000 ms.
\<close>

lemma onClick2_always_schedules_refresh:
  "timers (mint_onClick2 env s) = timers (mintTestUSDC2 env s) @ [(CheckBalance, 3000)]"
  "timers (deposit_onClick2 env s) = timers (depositUSDC2 env s) @ [(CheckBalance, 3000)]"
  "timers (claim_onClick2 env s) = timers (claimRewards2 env s) @ [(CheckBalance, 3000)]"
  by (simp_all add: mint_onClick2_def deposit_onClick2_def claim_onClick2_def setTimeout_def)


end
